theory Spec2Isabelle
  imports Complex_Main "HOL-Library.Word"
begin

section \<open>Strings and the classification of load failures\<close>

text \<open>
  An exception is represented by its description \<open>str(e)\<close>; a computation that may raise
  returns \<open>string + 'a\<close>, with \<open>Inl\<close> carrying the description of the exception.

  \<open>lower\<close> is \<open>str.lower()\<close> on the ASCII letters; every other character is kept. The
  only use of \<open>lower\<close> in the service is the search for the ASCII words \<open>timeout\<close> and
  \<open>connection\<close>.
\<close>

definition lower_char :: "char \<Rightarrow> char" where
  "lower_char c =
     (case map_of (zip ''ABCDEFGHIJKLMNOPQRSTUVWXYZ'' ''abcdefghijklmnopqrstuvwxyz'') c of
        None \<Rightarrow> c
      | Some l \<Rightarrow> l)"

definition lower :: "string \<Rightarrow> string" where
  "lower s = map lower_char s"

text \<open>\<open>starts_with needle s\<close>: \<open>s.startswith(needle)\<close>; \<open>str_in needle s\<close>: \<open>needle in s\<close>.\<close>

definition starts_with :: "string \<Rightarrow> string \<Rightarrow> bool" where
  "starts_with needle s = (take (length needle) s = needle)"

fun str_in :: "string \<Rightarrow> string \<Rightarrow> bool" where
  "str_in needle [] = (needle = [])"
| "str_in needle (c # cs) = (starts_with needle (c # cs) \<or> str_in needle cs)"

text \<open>Line 91: \<open>"timeout" in error_msg.lower() or "connection" in error_msg.lower()\<close>.\<close>

definition network_issue :: "string \<Rightarrow> bool" where
  "network_issue error_msg =
     (str_in ''timeout'' (lower error_msg) \<or> str_in ''connection'' (lower error_msg))"

section \<open>Calls to the outside world\<close>

text \<open>
  Every call that leaves the service (the clock, the model hub, the upload, the image
  library, the tensor library) is recorded in a log, in the order of the calls.
\<close>

type_synonym bytes = "8 word list"

datatype event =
    Sleep int
  | FromPretrainedModel nat
  | FromPretrainedProcessor nat
  | ModelTo string
  | ReadFile "string option"
  | ImageOpen
  | Convert string
  | Preprocess
  | InputsTo
  | GetImageFeatures

fun slept :: "event list \<Rightarrow> int list" where
  "slept [] = []"
| "slept (Sleep d # evs) = d # slept evs"
| "slept (_ # evs) = slept evs"

fun load_attempts :: "event list \<Rightarrow> nat list" where
  "load_attempts [] = []"
| "load_attempts (FromPretrainedModel k # evs) = k # load_attempts evs"
| "load_attempts (_ # evs) = load_attempts evs"

section \<open>The engine state and the model loader\<close>

text \<open>The three module globals \<open>model\<close>, \<open>processor\<close>, \<open>device\<close> (lines 27 to 29).\<close>

record ('m, 'p) engine_state =
  model :: "'m option"
  processor :: "'p option"
  device :: "string option"

definition initial_state :: "('m, 'p) engine_state" where
  "initial_state = \<lparr>model = None, processor = None, device = None\<rparr>"

text \<open>
  What the loader calls: \<open>torch.cuda.is_available()\<close>, the two \<open>from_pretrained\<close>
  downloads (their outcome depends on the moment of the call, here the number of the
  attempt), \<open>model.to(device)\<close> and \<open>model.eval()\<close>.
\<close>

record ('m, 'p) hub =
  cuda_is_available :: bool
  clip_model_from_pretrained :: "nat \<Rightarrow> string + 'm"
  clip_processor_from_pretrained :: "nat \<Rightarrow> string + 'p"
  model_to :: "'m \<Rightarrow> string \<Rightarrow> string + 'm"
  model_eval :: "'m \<Rightarrow> 'm"

text \<open>
  Lines 49 to 52: before a retry the loader sleeps \<open>retry_delay\<close> and doubles it.
  The delay is a whole number of seconds, as the default 5 is. \<open>time.sleep\<close> first
  converts the delay to a signed 64-bit count of nanoseconds and raises
  \<open>OverflowError\<close> when it does not fit, which is beyond 9223372036 seconds either
  way; it then raises \<open>ValueError\<close> on a negative length. Both are raised inside the
  \<open>try\<close>, before the delay is doubled. The result is the delay for the next attempt,
  the log, and whether the sleep raised.
\<close>

definition backoff :: "nat \<Rightarrow> int \<Rightarrow> int \<times> event list \<times> (string + unit)" where
  "backoff attempt retry_delay =
     (if attempt > 0 then
        (if retry_delay < - 9223372036 \<or> 9223372036 < retry_delay then
           (retry_delay, [], Inl ''timestamp too large to convert to C _PyTime_t'')
         else if retry_delay < 0 then
           (retry_delay, [], Inl ''sleep length must be non-negative'')
         else (retry_delay * 2, [Sleep retry_delay], Inr ()))
      else (retry_delay, [], Inr ()))"

text \<open>
  Lines 55 to 85: one download of model and processor. The globals are assigned as the
  calls return, so a failure of the second download leaves \<open>model\<close> assigned.
\<close>

definition load_attempt ::
  "('m, 'p) hub \<Rightarrow> string \<Rightarrow> nat \<Rightarrow> ('m, 'p) engine_state
     \<Rightarrow> ('m, 'p) engine_state \<times> event list \<times> (string + bool)" where
  "load_attempt hub dev attempt st =
     (case clip_model_from_pretrained hub attempt of
        Inl e \<Rightarrow> (st, [FromPretrainedModel attempt], Inl e)
      | Inr m \<Rightarrow>
          (case clip_processor_from_pretrained hub attempt of
             Inl e \<Rightarrow>
               (st\<lparr>model := Some m\<rparr>,
                [FromPretrainedModel attempt, FromPretrainedProcessor attempt], Inl e)
           | Inr p \<Rightarrow>
               (case model_to hub m dev of
                  Inl e \<Rightarrow>
                    (st\<lparr>model := Some m, processor := Some p\<rparr>,
                     [FromPretrainedModel attempt, FromPretrainedProcessor attempt, ModelTo dev],
                     Inl e)
                | Inr moved \<Rightarrow>
                    (st\<lparr>model := Some (model_eval hub moved), processor := Some p\<rparr>,
                     [FromPretrainedModel attempt, FromPretrainedProcessor attempt, ModelTo dev],
                     Inr True))))"

text \<open>
  Lines 48 to 85, the body of the \<open>try\<close> for one value of \<open>attempt\<close>: the sleep before
  a retry, then the download. The result holds the delay for the next attempt.
\<close>

definition attempt_body ::
  "('m, 'p) hub \<Rightarrow> string \<Rightarrow> nat \<Rightarrow> int \<Rightarrow> ('m, 'p) engine_state
     \<Rightarrow> int \<times> ('m, 'p) engine_state \<times> event list \<times> (string + bool)" where
  "attempt_body hub dev attempt retry_delay st =
     (case backoff attempt retry_delay of
        (retry_delay', pre, Inl e) \<Rightarrow> (retry_delay', st, pre, Inl e)
      | (retry_delay', pre, Inr _) \<Rightarrow>
          (case load_attempt hub dev attempt st of
             (st', evs, r) \<Rightarrow> (retry_delay', st', pre @ evs, r)))"

text \<open>
  Lines 47 to 108: the loop over \<open>range(max_retries)\<close>, here the list of the attempts
  still to run. The \<open>except\<close> clause (lines 87 to 106) goes on to the next attempt after
  a network failure while \<open>attempt < max_retries - 1\<close>, and raises the exception again
  otherwise; line 108 returns \<open>False\<close> when the loop ends.
\<close>

fun retry_loop ::
  "('m, 'p) hub \<Rightarrow> int \<Rightarrow> string \<Rightarrow> nat list \<Rightarrow> int \<Rightarrow> ('m, 'p) engine_state
     \<Rightarrow> ('m, 'p) engine_state \<times> event list \<times> (string + bool)" where
  "retry_loop hub max_retries dev [] retry_delay st = (st, [], Inr False)"
| "retry_loop hub max_retries dev (attempt # rest) retry_delay st =
     (case attempt_body hub dev attempt retry_delay st of
        (retry_delay', st', evs, Inr b) \<Rightarrow> (st', evs, Inr b)
      | (retry_delay', st', evs, Inl error_msg) \<Rightarrow>
          (if network_issue error_msg then
             (if int attempt < max_retries - 1 then
                (case retry_loop hub max_retries dev rest retry_delay' st' of
                   (st'', evs', r) \<Rightarrow> (st'', evs @ evs', r))
              else (st', evs, Inl error_msg))
           else (st', evs, Inl error_msg)))"

text \<open>Lines 31 to 46, then the loop: the device is chosen and stored first.\<close>

definition load_model_with_retry ::
  "('m, 'p) hub \<Rightarrow> int \<Rightarrow> int \<Rightarrow> ('m, 'p) engine_state
     \<Rightarrow> ('m, 'p) engine_state \<times> event list \<times> (string + bool)" where
  "load_model_with_retry hub max_retries retry_delay st =
     (let dev = (if cuda_is_available hub then ''cuda'' else ''cpu'')
      in retry_loop hub max_retries dev [0..<nat max_retries] retry_delay
           (st\<lparr>device := Some dev\<rparr>))"

text \<open>
  Lines 118 to 127: startup fails exactly when the loader raises; the value the loader
  returns is not looked at. \<open>lifespan\<close> calls the loader with its default arguments.
\<close>

definition startup_after ::
  "('m, 'p) engine_state \<times> event list \<times> (string + bool)
     \<Rightarrow> ('m, 'p) engine_state \<times> event list \<times> (string + unit)" where
  "startup_after outcome =
     (case outcome of
        (st, evs, Inl e) \<Rightarrow> (st, evs, Inl e)
      | (st, evs, Inr _) \<Rightarrow> (st, evs, Inr ()))"

definition lifespan ::
  "('m, 'p) hub \<Rightarrow> ('m, 'p) engine_state
     \<Rightarrow> ('m, 'p) engine_state \<times> event list \<times> (string + unit)" where
  "lifespan hub st = startup_after (load_model_with_retry hub 3 5 st)"

section \<open>The request pipeline\<close>

text \<open>
  An upload carries its declared file name and what \<open>await file.read()\<close> gives: the
  bytes, or the exception of a failed read. An image, once opened, has a colour mode
  (\<open>image.mode\<close>) and its pixel data.
\<close>

record upload_file =
  filename :: "string option"
  contents :: "string + bytes"

record image =
  mode :: string
  raster :: bytes

text \<open>
  What a request calls: \<open>Image.open\<close>, \<open>image.convert\<close>, the CLIP processor, the move
  of the inputs to the device, \<open>model.get_image_features\<close>, and the two tensor
  operations of line 194, the norm of a row and the division of two floats. The floats
  are a type \<open>'x\<close> of the tensor library; the service never looks inside one.
\<close>

record ('m, 'p, 't, 'x) runtime =
  image_open :: "bytes \<Rightarrow> string + image"
  convert :: "image \<Rightarrow> string \<Rightarrow> string + image"
  processor_call :: "'p \<Rightarrow> image \<Rightarrow> string + 't"
  inputs_to :: "'t \<Rightarrow> string option \<Rightarrow> string + 't"
  get_image_features :: "'m \<Rightarrow> 't \<Rightarrow> string + 'x list list"
  row_norm :: "'x list \<Rightarrow> 'x"
  float_div :: "'x \<Rightarrow> 'x \<Rightarrow> 'x"

text \<open>
  A computation of the pipeline gives the log of its calls and a value or an exception.
  \<open>and_then\<close> runs the second computation only when the first returned.
\<close>

type_synonym 'a io = "event list \<times> (string + 'a)"

definition call :: "event \<Rightarrow> string + 'a \<Rightarrow> 'a io" where
  "call ev r = ([ev], r)"

definition no_call :: "'a \<Rightarrow> 'a io" where
  "no_call x = ([], Inr x)"

definition and_then :: "'a io \<Rightarrow> ('a \<Rightarrow> 'b io) \<Rightarrow> 'b io" where
  "and_then c f =
     (case c of
        (evs, Inl e) \<Rightarrow> (evs, Inl e)
      | (evs, Inr x) \<Rightarrow> (case f x of (evs', r) \<Rightarrow> (evs @ evs', r)))"

text \<open>
  Lines 179 to 184 (and 221 to 225): read the upload, open the image, and convert it to
  \<open>RGB\<close> when its mode is \<open>RGBA\<close>.
\<close>

definition decode :: "('m, 'p, 't, 'x) runtime \<Rightarrow> upload_file \<Rightarrow> image io" where
  "decode rt file =
     and_then (call (ReadFile (filename file)) (contents file)) (\<lambda>image_bytes.
     and_then (call ImageOpen (image_open rt image_bytes)) (\<lambda>img.
       if mode img = ''RGBA'' then call (Convert ''RGB'') (convert rt img ''RGB'')
       else no_call img))"

text \<open>
  Lines 187 to 195 (and 227 to 233): preprocess, move the inputs to the device, run the
  model, divide every row of the features by its norm, and take row 0 (an \<open>IndexError\<close>
  when there is none).
\<close>

definition normalize_rows :: "('m, 'p, 't, 'x) runtime \<Rightarrow> 'x list list \<Rightarrow> 'x list list" where
  "normalize_rows rt image_features =
     map (\<lambda>row. map (\<lambda>x. float_div rt x (row_norm rt row)) row) image_features"

definition row0 :: "'x list list \<Rightarrow> 'x list io" where
  "row0 rows =
     (case rows of
        [] \<Rightarrow> ([], Inl ''index 0 is out of bounds for axis 0 with size 0'')
      | emb # _ \<Rightarrow> no_call emb)"

definition embed ::
  "('m, 'p, 't, 'x) runtime \<Rightarrow> 'm \<Rightarrow> 'p \<Rightarrow> string option \<Rightarrow> image \<Rightarrow> 'x list io" where
  "embed rt m p dev img =
     and_then (call Preprocess (processor_call rt p img)) (\<lambda>inputs.
     and_then (call InputsTo (inputs_to rt inputs dev)) (\<lambda>inputs.
     and_then (call GetImageFeatures (get_image_features rt m inputs)) (\<lambda>image_features.
       row0 (normalize_rows rt image_features))))"

text \<open>The body of the \<open>try\<close> of both handlers.\<close>

definition try_body ::
  "('m, 'p, 't, 'x) runtime \<Rightarrow> 'm \<Rightarrow> 'p \<Rightarrow> string option \<Rightarrow> upload_file \<Rightarrow> 'x list io" where
  "try_body rt m p dev file = and_then (decode rt file) (embed rt m p dev)"

section \<open>The two handlers\<close>

record http_exception =
  status_code :: nat
  detail :: string

record 'x features_response =
  success :: bool
  embedding :: "'x list"
  dimension :: nat

datatype 'x entry =
    Succeeded "string option" "'x list" nat
  | Failed "string option" string

fun entry_filename :: "'x entry \<Rightarrow> string option" where
  "entry_filename (Succeeded name _ _) = name"
| "entry_filename (Failed name _) = name"

record 'x batch_response =
  batch_success :: bool
  results :: "'x entry list"

definition model_not_loaded :: http_exception where
  "model_not_loaded = \<lparr>status_code = 503, detail = ''Model not loaded''\<rparr>"

text \<open>
  Lines 168 to 207. The handler has no \<open>global\<close> statement: it reads the three globals
  and returns them as they were. The test of line 174, \<open>model is None or processor is
  None\<close>, is the two \<open>None\<close> branches; its 503 is raised outside the \<open>try\<close>. Every
  exception of the body becomes the 500 of line 207.
\<close>

definition extract_features ::
  "('m, 'p) engine_state \<Rightarrow> ('m, 'p, 't, 'x) runtime \<Rightarrow> upload_file
     \<Rightarrow> ('m, 'p) engine_state \<times> event list \<times> (http_exception + 'x features_response)" where
  "extract_features st rt file =
     (case model st of
        None \<Rightarrow> (st, [], Inl model_not_loaded)
      | Some m \<Rightarrow>
          (case processor st of
             None \<Rightarrow> (st, [], Inl model_not_loaded)
           | Some p \<Rightarrow>
               (case try_body rt m p (device st) file of
                  (evs, Inr emb) \<Rightarrow>
                    (st, evs, Inr \<lparr>success = True, embedding = emb, dimension = length emb\<rparr>)
                | (evs, Inl e) \<Rightarrow>
                    (st, evs,
                     Inl \<lparr>status_code = 500, detail = ''Feature extraction failed: '' @ e\<rparr>))))"

text \<open>Lines 220 to 248: the body of the batch loop for one file.\<close>

definition process_file ::
  "('m, 'p, 't, 'x) runtime \<Rightarrow> 'm \<Rightarrow> 'p \<Rightarrow> string option \<Rightarrow> upload_file
     \<Rightarrow> event list \<times> 'x entry" where
  "process_file rt m p dev file =
     (case try_body rt m p dev file of
        (evs, Inr emb) \<Rightarrow> (evs, Succeeded (filename file) emb (length emb))
      | (evs, Inl e) \<Rightarrow> (evs, Failed (filename file) e))"

text \<open>Lines 217 to 248: the loop, with \<open>results\<close> and the log as accumulators.\<close>

fun batch_loop ::
  "('m, 'p, 't, 'x) runtime \<Rightarrow> 'm \<Rightarrow> 'p \<Rightarrow> string option \<Rightarrow> upload_file list
     \<Rightarrow> event list \<Rightarrow> 'x entry list \<Rightarrow> event list \<times> 'x entry list" where
  "batch_loop rt m p dev [] calls rs = (calls, rs)"
| "batch_loop rt m p dev (file # files) calls rs =
     (case process_file rt m p dev file of
        (evs, r) \<Rightarrow> batch_loop rt m p dev files (calls @ evs) (rs @ [r]))"

text \<open>Lines 209 to 253.\<close>

definition extract_features_batch ::
  "('m, 'p) engine_state \<Rightarrow> ('m, 'p, 't, 'x) runtime \<Rightarrow> upload_file list
     \<Rightarrow> ('m, 'p) engine_state \<times> event list \<times> (http_exception + 'x batch_response)" where
  "extract_features_batch st rt files =
     (case model st of
        None \<Rightarrow> (st, [], Inl model_not_loaded)
      | Some m \<Rightarrow>
          (case processor st of
             None \<Rightarrow> (st, [], Inl model_not_loaded)
           | Some p \<Rightarrow>
               (case batch_loop rt m p (device st) files [] [] of
                  (evs, rs) \<Rightarrow> (st, evs, Inr \<lparr>batch_success = True, results = rs\<rparr>))))"

section \<open>Colour modes\<close>

text \<open>
  The colour modes of the image library that carry an alpha band (\<open>LA\<close> and \<open>PA\<close> are
  grey and palette images with alpha, \<open>La\<close> and \<open>RGBa\<close> their premultiplied forms).
\<close>

definition has_alpha :: "string \<Rightarrow> bool" where
  "has_alpha m = (m \<in> set [''RGBA'', ''LA'', ''PA'', ''RGBa'', ''La''])"

section \<open>The Euclidean norm\<close>


section \<open>Concrete hubs, runtimes and uploads\<close>

text \<open>
  Two model hubs: one whose first two downloads fail with network errors, and one whose
  download fails with an error that is not a network error.
\<close>

definition flaky_hub :: "(string, string) hub" where
  "flaky_hub =
     \<lparr>cuda_is_available = False,
      clip_model_from_pretrained =
        (\<lambda>k. if k = 0 then Inl ''Read timed out. (read timeout=10)''
             else if k = 1 then Inl ''Connection reset by peer''
             else Inr ''clip-vit-base-patch32''),
      clip_processor_from_pretrained = (\<lambda>k. Inr ''clip-processor''),
      model_to = (\<lambda>m dev. Inr m),
      model_eval = (\<lambda>m. m)\<rparr>"

definition broken_hub :: "(string, string) hub" where
  "broken_hub =
     \<lparr>cuda_is_available = False,
      clip_model_from_pretrained = (\<lambda>k. Inl ''Permission denied''),
      clip_processor_from_pretrained = (\<lambda>k. Inr ''clip-processor''),
      model_to = (\<lambda>m dev. Inr m),
      model_eval = (\<lambda>m. m)\<rparr>"

text \<open>
  A small runtime. The first byte of an upload names the mode (4 \<open>RGBA\<close>, 3 \<open>RGB\<close>,
  2 \<open>LA\<close>), the rest is the pixel data; as with the real library, opening reads the
  header only, and pixel data that is missing is noticed by the first call that loads
  it (\<open>convert\<close>, or the processor). The model returns the bytes as one row of reals.
\<close>

fun drop_alpha :: "bytes \<Rightarrow> bytes" where
  "drop_alpha (r # g # b # a # rest) = r # g # b # drop_alpha rest"
| "drop_alpha rest = rest"

definition toy_runtime :: "(string, string, bytes, real) runtime" where
  "toy_runtime =
     \<lparr>image_open =
        (\<lambda>bs. case bs of
           [] \<Rightarrow> Inl ''cannot identify image file''
         | b # data \<Rightarrow>
             if b = 4 then Inr \<lparr>mode = ''RGBA'', raster = data\<rparr>
             else if b = 3 then Inr \<lparr>mode = ''RGB'', raster = data\<rparr>
             else if b = 2 then Inr \<lparr>mode = ''LA'', raster = data\<rparr>
             else Inl ''cannot identify image file''),
      convert =
        (\<lambda>img target.
           if raster img = [] then Inl ''image file is truncated''
           else Inr \<lparr>mode = target, raster = drop_alpha (raster img)\<rparr>),
      processor_call =
        (\<lambda>p img. if raster img = [] then Inl ''image file is truncated'' else Inr (raster img)),
      inputs_to = (\<lambda>inputs dev. Inr inputs),
      get_image_features = (\<lambda>m inputs. Inr [map (\<lambda>b. real (unat b)) inputs]),
      row_norm = (\<lambda>row. sqrt (sum_list (map (\<lambda>x. x * x) row))),
      float_div = (\<lambda>x y. x / y)\<rparr>"


definition loaded_state :: "(string, string) engine_state" where
  "loaded_state =
     \<lparr>model = Some ''clip-vit-base-patch32'', processor = Some ''clip-processor'',
      device = Some ''cpu''\<rparr>"

definition rgb_file :: upload_file where
  "rgb_file = \<lparr>filename = Some ''a.jpg'', contents = Inr [3, 0, 1, 0]\<rparr>"

definition bad_file :: upload_file where
  "bad_file = \<lparr>filename = Some ''b.txt'', contents = Inr []\<rparr>"

definition rgba_file :: upload_file where
  "rgba_file = \<lparr>filename = Some ''c.png'', contents = Inr [4, 1, 0, 0, 255]\<rparr>"

definition la_file :: upload_file where
  "la_file = \<lparr>filename = Some ''d.png'', contents = Inr [2, 1, 255]\<rparr>"

definition truncated_rgba_file :: upload_file where
  "truncated_rgba_file = \<lparr>filename = Some ''e.png'', contents = Inr [4]\<rparr>"

definition truncated_rgb_file :: upload_file where
  "truncated_rgb_file = \<lparr>filename = Some ''f.jpg'', contents = Inr [3]\<rparr>"

section \<open>Facts about the loader\<close>

lemmas word_defs = network_issue_def lower_def lower_char_def starts_with_def


lemma load_attempts_append: "load_attempts (xs @ ys) = load_attempts xs @ load_attempts ys"
  by (induction xs rule: load_attempts.induct) simp_all

lemma load_attempt_calls:
  "load_attempt hub dev k st = (st', evs, r) \<Longrightarrow> slept evs = [] \<and> load_attempts evs = [k]"
  by (auto simp: load_attempt_def split: sum.splits)


lemma range_pos: "0 < (n::int) \<Longrightarrow> [0..<nat n] = 0 # [1..<nat n]"
  by (simp add: upt_rec)

lemma range_three: "[0..<3] = [0, 1, 2::nat]"
  by (simp add: upt_rec)

text \<open>The words are searched in the lower-cased description, anywhere in it.\<close>

lemma network_issue_examples:
  "network_issue ''Read timed out. (read timeout=10)''"
  "network_issue ''Connection reset by peer''"
  "network_issue ''HTTPSCONNECTIONPool: Max retries exceeded''"
  "\<not> network_issue ''Permission denied''"
  by (simp_all add: word_defs)


text \<open>The first attempt does not sleep and keeps the delay.\<close>

lemma attempt_body_first:
  assumes "attempt_body hub dev 0 delay st = (delay', st', evs, r)"
  shows "delay' = delay \<and> slept evs = [] \<and> load_attempts evs = [0]"
proof -
  obtain st1 ev1 r1 where la: "load_attempt hub dev 0 st = (st1, ev1, r1)"
    by (metis prod_cases3)
  with assms have "delay' = delay" and "evs = ev1"
    by (simp_all add: attempt_body_def backoff_def)
  then show ?thesis
    using load_attempt_calls [OF la] by simp
qed


text \<open>
  A negative delay, and a delay too long for \<open>time.sleep\<close>: the first retry fails in
  \<open>time.sleep\<close>, with an error that is not a network error, and the load stops there
  without a second download. A delay whose double is too long stops at the second retry.
\<close>

lemma negative_delay_stops_at_first_retry:
  "load_model_with_retry flaky_hub 3 (- 5) initial_state =
     (\<lparr>model = None, processor = None, device = Some ''cpu''\<rparr>,
      [FromPretrainedModel 0], Inl ''sleep length must be non-negative'')"
  by (simp add: load_model_with_retry_def range_three attempt_body_def backoff_def
        load_attempt_def initial_state_def flaky_hub_def word_defs)

text \<open>Startup fails exactly when the loader raises.\<close>

lemma lifespan_raises_iff:
  "snd (snd (lifespan hub st)) = Inl e \<longleftrightarrow>
     snd (snd (load_model_with_retry hub 3 5 st)) = Inl e"
  by (simp add: lifespan_def startup_after_def split: prod.splits sum.splits)

text \<open>With the default arguments, a hub that recovers at the third download starts the service.\<close>

lemma lifespan_flaky_hub:
  "lifespan flaky_hub initial_state =
     (loaded_state,
      [FromPretrainedModel 0, Sleep 5, FromPretrainedModel 1, Sleep 10,
       FromPretrainedModel 2, FromPretrainedProcessor 2, ModelTo ''cpu''], Inr ())"
  by (simp add: lifespan_def startup_after_def load_model_with_retry_def range_three
        attempt_body_def backoff_def load_attempt_def initial_state_def loaded_state_def
        flaky_hub_def word_defs Let_def)

lemma long_delay_stops_at_first_retry:
  "load_model_with_retry flaky_hub 3 10000000000 initial_state =
     (\<lparr>model = None, processor = None, device = Some ''cpu''\<rparr>,
      [FromPretrainedModel 0], Inl ''timestamp too large to convert to C _PyTime_t'')"
  by (simp add: load_model_with_retry_def range_three attempt_body_def backoff_def
        load_attempt_def initial_state_def flaky_hub_def word_defs)

lemma doubled_delay_stops_at_second_retry:
  "load_model_with_retry flaky_hub 3 5000000000 initial_state =
     (\<lparr>model = None, processor = None, device = Some ''cpu''\<rparr>,
      [FromPretrainedModel 0, Sleep 5000000000, FromPretrainedModel 1],
      Inl ''timestamp too large to convert to C _PyTime_t'')"
  by (simp add: load_model_with_retry_def range_three attempt_body_def backoff_def
        load_attempt_def initial_state_def flaky_hub_def word_defs)

section \<open>Retry and backoff\<close>



section \<open>Fatal load errors\<close>

text \<open>
  C4. When the loop runs at least once and the first attempt fails with an error that is
  not a network error, the load raises that error with the state and the calls of the
  first attempt alone: no sleep, and one download attempt, the one numbered 0.
\<close>

theorem fatal_error_no_retry:
  assumes pos: "0 < max_retries"
    and dev: "dev = (if cuda_is_available hub then ''cuda'' else ''cpu'')"
    and a0: "attempt_body hub dev 0 d (st\<lparr>device := Some dev\<rparr>) = (d1, st1, ev0, Inl e)"
    and nn: "\<not> network_issue e"
  shows "load_model_with_retry hub max_retries d st = (st1, ev0, Inl e)
         \<and> slept ev0 = [] \<and> load_attempts ev0 = [0]"
proof -
  have "load_model_with_retry hub max_retries d st = (st1, ev0, Inl e)"
    using a0 nn
    by (simp add: load_model_with_retry_def range_pos [OF pos] dev [symmetric])
  then show ?thesis
    using attempt_body_first [OF a0] by simp
qed

theorem fatal_error_no_retry_witness:
  "(0::int) < 3
   \<and> attempt_body broken_hub ''cpu'' 0 5 (initial_state\<lparr>device := Some ''cpu''\<rparr>) =
       (5, \<lparr>model = None, processor = None, device = Some ''cpu''\<rparr>,
        [FromPretrainedModel 0], Inl ''Permission denied'')
   \<and> \<not> network_issue ''Permission denied''
   \<and> load_model_with_retry broken_hub 3 5 initial_state =
       (\<lparr>model = None, processor = None, device = Some ''cpu''\<rparr>,
        [FromPretrainedModel 0], Inl ''Permission denied'')
   \<and> slept [FromPretrainedModel 0] = []
   \<and> load_attempts [FromPretrainedModel 0] = [0]"
proof -
  have pos: "(0::int) < 3"
    by simp
  have dev: "''cpu'' = (if cuda_is_available broken_hub then ''cuda'' else ''cpu'')"
    by (simp add: broken_hub_def)
  have a0: "attempt_body broken_hub ''cpu'' 0 5 (initial_state\<lparr>device := Some ''cpu''\<rparr>) =
              (5, \<lparr>model = None, processor = None, device = Some ''cpu''\<rparr>,
               [FromPretrainedModel 0], Inl ''Permission denied'')"
    by (simp add: attempt_body_def backoff_def load_attempt_def broken_hub_def initial_state_def)
  have nn: "\<not> network_issue ''Permission denied''"
    by (simp add: word_defs)
  show ?thesis
    using fatal_error_no_retry [OF pos dev a0 nn] a0 nn
    by simp
qed

section \<open>Facts about the request pipeline\<close>

lemmas io_defs = call_def no_call_def and_then_def

lemmas file_defs =
  rgb_file_def bad_file_def rgba_file_def la_file_def truncated_rgba_file_def
  truncated_rgb_file_def

lemmas run_defs =
  extract_features_batch_def extract_features_def process_file_def try_body_def decode_def
  embed_def io_defs toy_runtime_def normalize_rows_def row0_def loaded_state_def

text \<open>The loop appends to its accumulators what each file gives, in the order of the files.\<close>

lemma batch_loop_acc:
  "batch_loop rt m p dev files calls rs =
     (calls @ concat (map (\<lambda>f. fst (process_file rt m p dev f)) files),
      rs @ map (\<lambda>f. snd (process_file rt m p dev f)) files)"
  by (induction files arbitrary: calls rs) (simp_all split: prod.splits)

lemma process_file_entry:
  "snd (process_file rt m p dev f) =
     (case snd (try_body rt m p dev f) of
        Inr emb \<Rightarrow> Succeeded (filename f) emb (length emb)
      | Inl e \<Rightarrow> Failed (filename f) e)"
  by (simp add: process_file_def split: prod.splits sum.splits)

lemma process_file_calls: "fst (process_file rt m p dev f) = fst (try_body rt m p dev f)"
  by (simp add: process_file_def split: prod.splits sum.splits)

lemma process_file_filename: "entry_filename (snd (process_file rt m p dev f)) = filename f"
  by (simp add: process_file_def split: prod.splits sum.splits)

lemma decode_reads: "\<exists>rest. fst (decode rt f) = ReadFile (filename f) # rest"
  by (simp add: decode_def call_def and_then_def split: prod.splits sum.splits)

lemma try_body_reads: "ReadFile (filename f) \<in> set (fst (try_body rt m p dev f))"
proof -
  obtain rest where "fst (decode rt f) = ReadFile (filename f) # rest"
    using decode_reads by blast
  then show ?thesis
    by (auto simp: try_body_def and_then_def split: prod.splits sum.splits)
qed

lemma batch_ready:
  assumes "model st = Some m" and "processor st = Some p"
  shows "extract_features_batch st rt files =
           (st, concat (map (\<lambda>f. fst (process_file rt m p (device st) f)) files),
            Inr \<lparr>batch_success = True,
                 results = map (\<lambda>f. snd (process_file rt m p (device st) f)) files\<rparr>)"
  using assms by (simp add: extract_features_batch_def batch_loop_acc)


text \<open>
  The batch of three uploads whose second is not an image: three entries, in the order
  of the uploads, the first and the third with their embeddings.
\<close>

lemma batch_with_one_bad_file:
  "extract_features_batch loaded_state toy_runtime [rgb_file, bad_file, rgba_file] =
     (loaded_state,
      [ReadFile (Some ''a.jpg''), ImageOpen, Preprocess, InputsTo, GetImageFeatures,
       ReadFile (Some ''b.txt''), ImageOpen,
       ReadFile (Some ''c.png''), ImageOpen, Convert ''RGB'', Preprocess, InputsTo,
       GetImageFeatures],
      Inr \<lparr>batch_success = True,
           results = [Succeeded (Some ''a.jpg'') [0, 1, 0] 3,
                      Failed (Some ''b.txt'') ''cannot identify image file'',
                      Succeeded (Some ''c.png'') [1, 0, 0] 3]\<rparr>)"
  by (simp add: run_defs file_defs)

section \<open>Batch extraction\<close>

text \<open>
  C1. While model and processor are loaded, a batch request returns a list of results
  with one entry for each upload, in the order of the uploads. Entry \<open>i\<close> carries the
  file name of upload \<open>i\<close> and is decided by upload \<open>i\<close> alone: a success entry with
  the embedding and its length when the pipeline returns for that upload, an error
  entry with the description of the exception when it raises. The calls of the request
  are the calls of every upload, one upload after the other, so every upload is read
  whatever happened to the uploads before it.
\<close>

theorem batch_one_entry_per_input:
  assumes m: "model st = Some m" and p: "processor st = Some p"
  shows "\<exists>evs rs.
           extract_features_batch st rt files =
             (st, evs, Inr \<lparr>batch_success = True, results = rs\<rparr>)
           \<and> length rs = length files
           \<and> map entry_filename rs = map filename files
           \<and> evs = concat (map (\<lambda>f. fst (try_body rt m p (device st) f)) files)
           \<and> (\<forall>i < length files.
                 rs ! i =
                   (case snd (try_body rt m p (device st) (files ! i)) of
                      Inr emb \<Rightarrow> Succeeded (filename (files ! i)) emb (length emb)
                    | Inl e \<Rightarrow> Failed (filename (files ! i)) e)
                 \<and> ReadFile (filename (files ! i)) \<in> set evs)"
proof -
  let ?evs = "concat (map (\<lambda>f. fst (process_file rt m p (device st) f)) files)"
  let ?rs = "map (\<lambda>f. snd (process_file rt m p (device st) f)) files"
  have run: "extract_features_batch st rt files =
               (st, ?evs, Inr \<lparr>batch_success = True, results = ?rs\<rparr>)"
    by (rule batch_ready [OF m p])
  have len: "length ?rs = length files"
    by simp
  have names: "map entry_filename ?rs = map filename files"
    by (simp add: process_file_filename)
  have calls: "?evs = concat (map (\<lambda>f. fst (try_body rt m p (device st) f)) files)"
    by (simp add: process_file_calls)
  have each: "\<forall>i < length files.
                 ?rs ! i =
                   (case snd (try_body rt m p (device st) (files ! i)) of
                      Inr emb \<Rightarrow> Succeeded (filename (files ! i)) emb (length emb)
                    | Inl e \<Rightarrow> Failed (filename (files ! i)) e)
                 \<and> ReadFile (filename (files ! i)) \<in> set ?evs"
  proof (intro allI impI conjI)
    fix i
    assume i: "i < length files"
    show "?rs ! i =
            (case snd (try_body rt m p (device st) (files ! i)) of
               Inr emb \<Rightarrow> Succeeded (filename (files ! i)) emb (length emb)
             | Inl e \<Rightarrow> Failed (filename (files ! i)) e)"
      using i by (simp add: process_file_entry)
    have "files ! i \<in> set files"
      using i by simp
    then show "ReadFile (filename (files ! i)) \<in> set ?evs"
      using try_body_reads [of "files ! i" rt m p "device st"]
      by (auto simp: process_file_calls)
  qed
  show ?thesis
    using run len names calls each by blast
qed

theorem batch_one_entry_per_input_witness:
  "model loaded_state = Some ''clip-vit-base-patch32''
   \<and> processor loaded_state = Some ''clip-processor''
   \<and> (\<exists>evs rs.
         extract_features_batch loaded_state toy_runtime [rgb_file, bad_file, rgba_file] =
           (loaded_state, evs, Inr \<lparr>batch_success = True, results = rs\<rparr>)
         \<and> length rs = 3
         \<and> map entry_filename rs = [Some ''a.jpg'', Some ''b.txt'', Some ''c.png'']
         \<and> rs ! 1 = Failed (Some ''b.txt'') ''cannot identify image file''
         \<and> ReadFile (Some ''c.png'') \<in> set evs)"
proof -
  have m: "model loaded_state = Some ''clip-vit-base-patch32''"
    and p: "processor loaded_state = Some ''clip-processor''"
    by (simp_all add: loaded_state_def)
  have bad: "snd (try_body toy_runtime ''clip-vit-base-patch32'' ''clip-processor''
                    (device loaded_state) bad_file) = Inl ''cannot identify image file''"
    by (simp add: try_body_def decode_def io_defs toy_runtime_def bad_file_def)
  obtain evs rs where
    run: "extract_features_batch loaded_state toy_runtime [rgb_file, bad_file, rgba_file] =
            (loaded_state, evs, Inr \<lparr>batch_success = True, results = rs\<rparr>)"
    and len: "length rs = length [rgb_file, bad_file, rgba_file]"
    and names: "map entry_filename rs = map filename [rgb_file, bad_file, rgba_file]"
    and each: "\<forall>i < length [rgb_file, bad_file, rgba_file].
                 rs ! i =
                   (case snd (try_body toy_runtime ''clip-vit-base-patch32'' ''clip-processor''
                                (device loaded_state) ([rgb_file, bad_file, rgba_file] ! i)) of
                      Inr emb \<Rightarrow>
                        Succeeded (filename ([rgb_file, bad_file, rgba_file] ! i)) emb (length emb)
                    | Inl e \<Rightarrow> Failed (filename ([rgb_file, bad_file, rgba_file] ! i)) e)
                 \<and> ReadFile (filename ([rgb_file, bad_file, rgba_file] ! i)) \<in> set evs"
    using batch_one_entry_per_input [OF m p, of toy_runtime "[rgb_file, bad_file, rgba_file]"]
    by blast
  have one: "rs ! 1 = Failed (Some ''b.txt'') ''cannot identify image file''"
    using each [rule_format, of 1] bad by (simp add: bad_file_def)
  have two: "ReadFile (Some ''c.png'') \<in> set evs"
    using each [rule_format, of 2] by (simp add: rgba_file_def)
  show ?thesis
    using m p run len names one two by (auto simp: file_defs)
qed

text \<open>
  C9. While model and processor are loaded, a batch request returns a response (the
  handler does not raise, so the status is 200) whose \<open>success\<close> is \<open>True\<close>, whatever the
  uploads are and however many of them fail.
\<close>

theorem batch_envelope_success:
  assumes "model st = Some m" and "processor st = Some p"
  shows "\<exists>r. snd (snd (extract_features_batch st rt files)) = Inr r \<and> batch_success r = True"
  using assms by (simp add: extract_features_batch_def split: prod.splits)

theorem batch_envelope_success_witness:
  "model loaded_state = Some ''clip-vit-base-patch32''
   \<and> processor loaded_state = Some ''clip-processor''
   \<and> (\<exists>r. snd (snd (extract_features_batch loaded_state toy_runtime
                        [bad_file, truncated_rgb_file])) = Inr r
          \<and> batch_success r = True)
   \<and> snd (snd (extract_features_batch loaded_state toy_runtime [bad_file, truncated_rgb_file])) =
       Inr \<lparr>batch_success = True,
            results = [Failed (Some ''b.txt'') ''cannot identify image file'',
                       Failed (Some ''f.jpg'') ''image file is truncated'']\<rparr>"
proof -
  have m: "model loaded_state = Some ''clip-vit-base-patch32''"
    and p: "processor loaded_state = Some ''clip-processor''"
    by (simp_all add: loaded_state_def)
  have all_fail:
    "snd (snd (extract_features_batch loaded_state toy_runtime [bad_file, truncated_rgb_file])) =
       Inr \<lparr>batch_success = True,
            results = [Failed (Some ''b.txt'') ''cannot identify image file'',
                       Failed (Some ''f.jpg'') ''image file is truncated'']\<rparr>"
    by (simp add: run_defs file_defs)
  show ?thesis
    using batch_envelope_success [OF m p, of toy_runtime "[bad_file, truncated_rgb_file]"]
      m p all_fail
    by simp
qed

section \<open>The readiness gate\<close>

text \<open>
  C2. When the model or the processor is not loaded, a single request and a batch
  request both raise the 503 \<open>Model not loaded\<close>, with an empty log of calls: no upload
  is read, no image opened, nothing preprocessed or run, whatever the runtime and the
  uploads are. A batch gets this one answer and no list of results.
\<close>

theorem not_ready_is_503:
  assumes "model st = None \<or> processor st = None"
  shows "extract_features st rt file =
           (st, [], Inl \<lparr>status_code = 503, detail = ''Model not loaded''\<rparr>)
         \<and> extract_features_batch st rt files =
           (st, [], Inl \<lparr>status_code = 503, detail = ''Model not loaded''\<rparr>)"
  using assms
  by (auto simp: extract_features_def extract_features_batch_def model_not_loaded_def
           split: option.splits)

theorem not_ready_is_503_witness:
  "(model \<lparr>model = Some ''clip-vit-base-patch32'', processor = None :: string option,
           device = Some ''cpu''\<rparr> = None
      \<or> processor \<lparr>model = Some ''clip-vit-base-patch32'', processor = None :: string option,
                    device = Some ''cpu''\<rparr> = None)
   \<and> extract_features
         \<lparr>model = Some ''clip-vit-base-patch32'', processor = None :: string option,
          device = Some ''cpu''\<rparr> toy_runtime rgb_file =
       (\<lparr>model = Some ''clip-vit-base-patch32'', processor = None, device = Some ''cpu''\<rparr>, [],
        Inl \<lparr>status_code = 503, detail = ''Model not loaded''\<rparr>)
   \<and> extract_features_batch
         \<lparr>model = Some ''clip-vit-base-patch32'', processor = None :: string option,
          device = Some ''cpu''\<rparr> toy_runtime [rgb_file, rgba_file] =
       (\<lparr>model = Some ''clip-vit-base-patch32'', processor = None, device = Some ''cpu''\<rparr>, [],
        Inl \<lparr>status_code = 503, detail = ''Model not loaded''\<rparr>)"
proof -
  let ?half = "\<lparr>model = Some ''clip-vit-base-patch32'', processor = None :: string option,
                device = Some ''cpu''\<rparr>"
  have gate: "model ?half = None \<or> processor ?half = None"
    by simp
  show ?thesis
    using not_ready_is_503 [OF gate, of toy_runtime rgb_file "[rgb_file, rgba_file]"] gate
    by simp
qed

section \<open>Requests and the engine state\<close>

text \<open>
  C8. A single request and a batch request leave the engine state as it was: the state
  after the request is the state before it, whether the request raised the 503, failed
  in decoding or in inference, or succeeded. A loaded engine therefore stays loaded.
\<close>

theorem requests_keep_state:
  "fst (extract_features st rt file) = st \<and> fst (extract_features_batch st rt files) = st"
  by (simp add: extract_features_def extract_features_batch_def
           split: option.splits prod.splits sum.splits)

section \<open>A loader that makes no attempt\<close>

text \<open>
  C10. With \<open>max_retries = 0\<close> the loader makes no call at all, raises nothing and
  returns \<open>False\<close>; it has set the device only. The startup code, which looks at
  exceptions only, completes. Model and processor are still unset, so a single request
  and a batch request on the state after startup raise the 503 without any call; as a
  request returns the state it was given, so does every later one.
\<close>

theorem zero_retries_starts_unready:
  "load_model_with_retry hub 0 d initial_state =
     (\<lparr>model = None, processor = None,
       device = Some (if cuda_is_available hub then ''cuda'' else ''cpu'')\<rparr>, [], Inr False)
   \<and> startup_after (load_model_with_retry hub 0 d initial_state) =
     (\<lparr>model = None, processor = None,
       device = Some (if cuda_is_available hub then ''cuda'' else ''cpu'')\<rparr>, [], Inr ())
   \<and> extract_features (fst (load_model_with_retry hub 0 d initial_state)) rt file =
     (fst (load_model_with_retry hub 0 d initial_state), [],
      Inl \<lparr>status_code = 503, detail = ''Model not loaded''\<rparr>)
   \<and> extract_features_batch (fst (load_model_with_retry hub 0 d initial_state)) rt files =
     (fst (load_model_with_retry hub 0 d initial_state), [],
      Inl \<lparr>status_code = 503, detail = ''Model not loaded''\<rparr>)"
  by (simp add: load_model_with_retry_def initial_state_def startup_after_def
        extract_features_def extract_features_batch_def model_not_loaded_def)

section \<open>Alpha channels\<close>

text \<open>
  An upload that opens as an image of mode \<open>LA\<close>, a mode with an alpha band, leaves
  the decode stage as it was opened: mode \<open>LA\<close>, both bands, and no call of
  \<open>convert\<close>.
\<close>

theorem la_image_is_not_converted:
  "contents la_file = Inr [2, 1, 255]
   \<and> image_open toy_runtime [2, 1, 255] = Inr \<lparr>mode = ''LA'', raster = [1, 255]\<rparr>
   \<and> has_alpha ''LA''
   \<and> decode toy_runtime la_file =
       ([ReadFile (Some ''d.png''), ImageOpen], Inr \<lparr>mode = ''LA'', raster = [1, 255]\<rparr>)"
  by (simp add: decode_def io_defs toy_runtime_def la_file_def has_alpha_def)

text \<open>
  C5, as the code has it. For an upload that is read and opened, the decode stage calls
  \<open>convert\<close> to \<open>RGB\<close> exactly when the mode of the image is \<open>RGBA\<close>, and then gives
  what \<open>convert\<close> gives (the converted image, or the exception of \<open>convert\<close> itself);
  an image of any other mode, the other modes with alpha among them, is handed on as
  it was opened, without a call of \<open>convert\<close> and without an exception.
\<close>

theorem decode_converts_rgba_only:
  assumes "contents file = Inr image_bytes" and "image_open rt image_bytes = Inr img"
  shows "decode rt file =
           (if mode img = ''RGBA''
            then ([ReadFile (filename file), ImageOpen, Convert ''RGB''], convert rt img ''RGB'')
            else ([ReadFile (filename file), ImageOpen], Inr img))"
  using assms by (simp add: decode_def io_defs)

theorem decode_converts_rgba_only_witness:
  "contents rgba_file = Inr [4, 1, 0, 0, 255]
   \<and> image_open toy_runtime [4, 1, 0, 0, 255] = Inr \<lparr>mode = ''RGBA'', raster = [1, 0, 0, 255]\<rparr>
   \<and> decode toy_runtime rgba_file =
       ([ReadFile (Some ''c.png''), ImageOpen, Convert ''RGB''],
        Inr \<lparr>mode = ''RGB'', raster = [1, 0, 0]\<rparr>)"
proof -
  have c: "contents rgba_file = Inr [4, 1, 0, 0, 255]"
    by (simp add: rgba_file_def)
  have i: "image_open toy_runtime [4, 1, 0, 0, 255] =
             Inr \<lparr>mode = ''RGBA'', raster = [1, 0, 0, 255]\<rparr>"
    by (simp add: toy_runtime_def)
  have "convert toy_runtime \<lparr>mode = ''RGBA'', raster = [1, 0, 0, 255]\<rparr> ''RGB'' =
          Inr \<lparr>mode = ''RGB'', raster = [1, 0, 0]\<rparr>"
    by (simp add: toy_runtime_def)
  then show ?thesis
    using decode_converts_rgba_only [OF c i] c i by (simp add: rgba_file_def)
qed

section \<open>Failures of a single request\<close>

text \<open>
  Two uploads with missing pixel data: for the \<open>RGBA\<close> one the decode stage raises
  (in \<open>convert\<close>), for the \<open>RGB\<close> one the decode stage returns and the embed stage
  raises (in the processor). The two requests get the same response.
\<close>

theorem decode_and_inference_failure_same_response:
  "decode toy_runtime truncated_rgba_file =
     ([ReadFile (Some ''e.png''), ImageOpen, Convert ''RGB''], Inl ''image file is truncated'')
   \<and> decode toy_runtime truncated_rgb_file =
     ([ReadFile (Some ''f.jpg''), ImageOpen], Inr \<lparr>mode = ''RGB'', raster = []\<rparr>)
   \<and> embed toy_runtime ''clip-vit-base-patch32'' ''clip-processor'' (Some ''cpu'')
       \<lparr>mode = ''RGB'', raster = []\<rparr> =
     ([Preprocess], Inl ''image file is truncated'')
   \<and> snd (snd (extract_features loaded_state toy_runtime truncated_rgba_file)) =
     snd (snd (extract_features loaded_state toy_runtime truncated_rgb_file))
   \<and> snd (snd (extract_features loaded_state toy_runtime truncated_rgb_file)) =
     Inl \<lparr>status_code = 500, detail = ''Feature extraction failed: image file is truncated''\<rparr>"
  by (simp add: run_defs file_defs)

text \<open>
  C6, as the code has it. With model and processor loaded, a failure of the decode
  stage and a failure of the embed stage get the same kind of response, the 500 whose
  detail is \<open>Feature extraction failed: \<close> followed by the description of the
  exception. The response is a function of that description alone; nothing else in it
  tells the stage that raised.
\<close>

theorem failures_collapse_to_500:
  assumes m: "model st = Some m" and p: "processor st = Some p"
  shows "(decode rt file = (evs, Inl msg) \<longrightarrow>
            extract_features st rt file =
              (st, evs,
               Inl \<lparr>status_code = 500, detail = ''Feature extraction failed: '' @ msg\<rparr>))
         \<and> (decode rt file = (evs1, Inr img) \<and> embed rt m p (device st) img = (evs2, Inl msg) \<longrightarrow>
            extract_features st rt file =
              (st, evs1 @ evs2,
               Inl \<lparr>status_code = 500, detail = ''Feature extraction failed: '' @ msg\<rparr>))"
  using m p by (simp add: extract_features_def try_body_def and_then_def)

theorem failures_collapse_to_500_witness:
  "model loaded_state = Some ''clip-vit-base-patch32''
   \<and> processor loaded_state = Some ''clip-processor''
   \<and> decode toy_runtime bad_file =
       ([ReadFile (Some ''b.txt''), ImageOpen], Inl ''cannot identify image file'')
   \<and> extract_features loaded_state toy_runtime bad_file =
       (loaded_state, [ReadFile (Some ''b.txt''), ImageOpen],
        Inl \<lparr>status_code = 500,
             detail = ''Feature extraction failed: cannot identify image file''\<rparr>)
   \<and> decode toy_runtime truncated_rgb_file =
       ([ReadFile (Some ''f.jpg''), ImageOpen], Inr \<lparr>mode = ''RGB'', raster = []\<rparr>)
   \<and> embed toy_runtime ''clip-vit-base-patch32'' ''clip-processor'' (device loaded_state)
         \<lparr>mode = ''RGB'', raster = []\<rparr> =
       ([Preprocess], Inl ''image file is truncated'')
   \<and> extract_features loaded_state toy_runtime truncated_rgb_file =
       (loaded_state, [ReadFile (Some ''f.jpg''), ImageOpen, Preprocess],
        Inl \<lparr>status_code = 500, detail = ''Feature extraction failed: image file is truncated''\<rparr>)"
proof -
  have m: "model loaded_state = Some ''clip-vit-base-patch32''"
    and p: "processor loaded_state = Some ''clip-processor''"
    by (simp_all add: loaded_state_def)
  have d1: "decode toy_runtime bad_file =
              ([ReadFile (Some ''b.txt''), ImageOpen], Inl ''cannot identify image file'')"
    by (simp add: decode_def io_defs toy_runtime_def bad_file_def)
  have d2: "decode toy_runtime truncated_rgb_file =
              ([ReadFile (Some ''f.jpg''), ImageOpen], Inr \<lparr>mode = ''RGB'', raster = []\<rparr>)"
    by (simp add: decode_def io_defs toy_runtime_def truncated_rgb_file_def)
  have e2: "embed toy_runtime ''clip-vit-base-patch32'' ''clip-processor'' (device loaded_state)
              \<lparr>mode = ''RGB'', raster = []\<rparr> =
            ([Preprocess], Inl ''image file is truncated'')"
    by (simp add: embed_def io_defs toy_runtime_def)
  have r1: "extract_features loaded_state toy_runtime bad_file =
              (loaded_state, [ReadFile (Some ''b.txt''), ImageOpen],
               Inl \<lparr>status_code = 500,
                    detail = ''Feature extraction failed: '' @ ''cannot identify image file''\<rparr>)"
    using failures_collapse_to_500 [OF m p, of toy_runtime bad_file] d1 by blast
  have r2: "extract_features loaded_state toy_runtime truncated_rgb_file =
              (loaded_state, [ReadFile (Some ''f.jpg''), ImageOpen] @ [Preprocess],
               Inl \<lparr>status_code = 500,
                    detail = ''Feature extraction failed: '' @ ''image file is truncated''\<rparr>)"
    using failures_collapse_to_500 [OF m p, of toy_runtime truncated_rgb_file] d2 e2 by blast
  show ?thesis
    using m p d1 d2 e2 r1 r2 by simp
qed

section \<open>The embedding\<close>







end
